theory Spec2Isabelle
  imports Main "HOL-Library.Sublist"
begin

section \<open>The PDB browser notebook: data model\<close>

text \<open>
  The notebook \<^verbatim>\<open>browse-pdb.ipynb\<close> reads the table of current PDB identifiers
  into a data frame with the two columns \<^verbatim>\<open>resultCount\<close> and \<^verbatim>\<open>idList\<close> and
  sets up a viewer whose callback \<^verbatim>\<open>view3d\<close> is re-run on every change of a control.
  A data frame is the list of its rows, in fetch order.
\<close>

datatype py_error = IndexError | TraitError

record row =
  resultCount :: int
  idList :: string

type_synonym dataframe = "row list"

text \<open>
  \<^verbatim>\<open>df.iloc[k]\<close> for an integer \<^verbatim>\<open>k\<close>: a position from \<open>-len(df)\<close> up to
  \<open>len(df) - 1\<close> is accepted, a negative one counts from the end, and every other
  position raises \<^verbatim>\<open>IndexError\<close>.
\<close>

definition iloc :: "dataframe \<Rightarrow> int \<Rightarrow> py_error + row" where
  "iloc df k =
     (let n = int (length df);
          j = (if k < 0 then n + k else k)
      in if 0 \<le> j \<and> j < n then Inr (df ! nat j) else Inl IndexError)"

text \<open>
  The values handed to the viewer are Python literals: dictionaries (in the order they
  are written), strings, booleans, decimal literals (\<open>JDec m e\<close> is \<open>m / 10 ^ e\<close>, so
  \<^verbatim>\<open>0.6\<close> is \<open>JDec 6 1\<close>) and the surface-type constants of the viewer library.
\<close>

datatype surface_type = VDW | MS | SAS | SES

datatype jsval =
    JBool bool
  | JStr string
  | JDec int nat
  | JSurf surface_type
  | JObj "(string \<times> jsval) list"

text \<open>
  A viewer object records the arguments of its construction (the query it fetches, the
  fetch options, the canvas width and height) and the directives issued to it so far:
  every method call on the viewer is appended as its name and its arguments.
\<close>

datatype directive = Directive string "jsval list"

record viewer =
  query :: string
  options :: "(string \<times> jsval) list"
  width :: int
  height :: int
  commands :: "directive list"

definition view :: "string \<Rightarrow> (string \<times> jsval) list \<Rightarrow> int \<Rightarrow> int \<Rightarrow> viewer" where
  "view q opts w h =
     \<lparr>query = q, options = opts, width = w, height = h, commands = []\<rparr>"

definition setStyle :: "jsval list \<Rightarrow> viewer \<Rightarrow> viewer" where
  "setStyle args v = v\<lparr>commands := commands v @ [Directive ''setStyle'' args]\<rparr>"

definition addSurface :: "jsval list \<Rightarrow> viewer \<Rightarrow> viewer" where
  "addSurface args v = v\<lparr>commands := commands v @ [Directive ''addSurface'' args]\<rparr>"

text \<open>
  The output area of the cell is the sequence of what has been emitted so far: text
  written by \<^verbatim>\<open>print\<close> and viewers emitted by \<^verbatim>\<open>viewer.show()\<close>.
\<close>

datatype cell_output = Stream string | Display viewer

definition LF :: char where
  "LF = CHR 0x0A"

fun join_sep :: "string \<Rightarrow> string list \<Rightarrow> string" where
  "join_sep sep [] = []"
| "join_sep sep [x] = x"
| "join_sep sep (x # y # ys) = x @ sep @ join_sep sep (y # ys)"

text \<open>\<^verbatim>\<open>print(a, b, ...)\<close> writes its arguments separated by one blank and ends the line.\<close>

definition py_print :: "string list \<Rightarrow> cell_output list \<Rightarrow> cell_output list" where
  "py_print args out = out @ [Stream (join_sep '' '' args @ [LF])]"

definition show_viewer :: "viewer \<Rightarrow> cell_output list \<Rightarrow> cell_output list" where
  "show_viewer v out = out @ [Display v]"

section \<open>The viewer callback and its setup\<close>

text \<open>
  \<^verbatim>\<open>view3d\<close> is nested in \<^verbatim>\<open>view_structure(df)\<close> and closes over \<open>df\<close>, which is its
  first argument here; the last argument is the output emitted before the invocation.
  The parameter \<^verbatim>\<open>size\<close> of the source is \<open>siz\<close>. A failed row lookup raises before
  anything is constructed or emitted. The value returned by the source is that of
  \<^verbatim>\<open>viewer.show()\<close>, which is \<^verbatim>\<open>None\<close>; the model returns the output area.
\<close>

definition polymer_style :: "jsval list" where
  "polymer_style =
     [JObj [(''cartoon'', JObj [(''color'', JStr ''spectrum''), (''width'', JDec 6 1)])]]"

definition non_polymer_style :: "jsval list" where
  "non_polymer_style =
     [JObj [(''hetflag'', JBool True)],
      JObj [(''stick'', JObj [(''radius'', JDec 3 1), (''singleBond'', JBool False)])]]"

definition surface_args :: "jsval list" where
  "surface_args =
     [JSurf SES, JObj [(''opacity'', JDec 8 1), (''color'', JStr ''lightblue'')], JObj []]"

definition header :: string where
  "header = ''Click and drag mouse to rotate structure: PDB ID''"

definition view3d ::
  "dataframe \<Rightarrow> bool \<Rightarrow> bool \<Rightarrow> int \<Rightarrow> int \<Rightarrow> cell_output list \<Rightarrow> py_error + cell_output list" where
  "view3d df show_bio_assembly show_surface siz i out =
     (case iloc df (i - 1) of
        Inl e \<Rightarrow> Inl e
      | Inr r \<Rightarrow>
          (let pdb_id = idList r;
               viewer = view (''pdb:'' @ pdb_id)
                          [(''doAssembly'', JBool show_bio_assembly)] siz siz;
               viewer = setStyle polymer_style viewer;
               viewer = setStyle non_polymer_style viewer;
               viewer = (if show_surface then addSurface surface_args viewer else viewer);
               out = py_print [header, pdb_id] out
           in Inr (show_viewer viewer out)))"

text \<open>
  The slider of \<^verbatim>\<open>view_structure\<close> is described by the arguments of its construction.
  The widget library validates the bounds when the slider is constructed: a maximum
  below the minimum is refused with \<^verbatim>\<open>TraitError\<close>, and no slider exists then.
\<close>

record IntSlider =
  smin :: int
  smax :: int
  description :: string
  continuous_update :: bool

definition new_IntSlider :: "int \<Rightarrow> int \<Rightarrow> string \<Rightarrow> bool \<Rightarrow> py_error + IntSlider" where
  "new_IntSlider mn mx d cu =
     (if mx < mn then Inl TraitError
      else Inr \<lparr>smin = mn, smax = mx, description = d, continuous_update = cu\<rparr>)"

text \<open>
  \<^verbatim>\<open>interact\<close> receives the callback, which is \<^verbatim>\<open>view3d\<close> closed over the \<open>df\<close> given
  to \<^verbatim>\<open>view_structure\<close>, the initial values of the two flags and of the size, and the
  slider for the index. When the construction of the slider raises, \<^verbatim>\<open>interact\<close> is
  not reached.
\<close>

record interact =
  callback :: "bool \<Rightarrow> bool \<Rightarrow> int \<Rightarrow> int \<Rightarrow> cell_output list \<Rightarrow> py_error + cell_output list"
  init_show_bio_assembly :: bool
  init_show_surface :: bool
  init_size :: int
  i_widget :: IntSlider

definition view_structure :: "dataframe \<Rightarrow> py_error + interact" where
  "view_structure df =
     (case new_IntSlider 1 (int (length df)) ''structure'' False of
        Inl e \<Rightarrow> Inl e
      | Inr s_widget \<Rightarrow>
          Inr \<lparr>callback = view3d df,
               init_show_bio_assembly = False, init_show_surface = False,
               init_size = 750, i_widget = s_widget\<rparr>)"

text \<open>
  Modelled from the spec: the slider control itself belongs to the widget library, which
  is not part of the notebook. The specification states that the slider guarantees the
  index bounds by construction (min/max clamping): the values a user can select with it
  are the integers from its minimum to its maximum.
\<close>

definition slider_values :: "IntSlider \<Rightarrow> int set" where
  "slider_values s = set [smin s..smax s]"

text \<open>
  Modelled from the spec: the indices that can reach the callback through the control.
  They are the values of the slider handed to \<^verbatim>\<open>interact\<close>; where the setup has raised
  there is no control, and no index can be selected.
\<close>

definition selectable :: "py_error + interact \<Rightarrow> int set" where
  "selectable setup =
     (case setup of Inl e \<Rightarrow> {} | Inr ia \<Rightarrow> slider_values (i_widget ia))"

text \<open>The first five rows of the fetched table, as the notebook displays them.\<close>

definition pdb_ids_head :: dataframe where
  "pdb_ids_head =
     [\<lparr>resultCount = 153836, idList = ''100D''\<rparr>,
      \<lparr>resultCount = 153836, idList = ''101D''\<rparr>,
      \<lparr>resultCount = 153836, idList = ''101M''\<rparr>,
      \<lparr>resultCount = 153836, idList = ''102D''\<rparr>,
      \<lparr>resultCount = 153836, idList = ''102L''\<rparr>]"

section \<open>What one invocation does\<close>

text \<open>The viewer that an invocation builds for a row, and the caption it prints.\<close>

definition built_viewer :: "row \<Rightarrow> bool \<Rightarrow> bool \<Rightarrow> int \<Rightarrow> viewer" where
  "built_viewer r show_bio_assembly show_surface siz =
     \<lparr>query = ''pdb:'' @ idList r,
      options = [(''doAssembly'', JBool show_bio_assembly)],
      width = siz, height = siz,
      commands = [Directive ''setStyle'' polymer_style,
                  Directive ''setStyle'' non_polymer_style] @
                 (if show_surface then [Directive ''addSurface'' surface_args] else [])\<rparr>"

definition caption :: "string \<Rightarrow> string" where
  "caption pdb_id = header @ '' '' @ pdb_id @ [LF]"

text \<open>The style directives are the calls of \<^verbatim>\<open>setStyle\<close>.\<close>

fun is_setStyle :: "directive \<Rightarrow> bool" where
  "is_setStyle (Directive name args) = (name = ''setStyle'')"

lemma view3d_row:
  "iloc df (i - 1) = Inr r \<Longrightarrow>
   view3d df b s siz i out =
     Inr (out @ [Stream (caption (idList r)), Display (built_viewer r b s siz)])"
  by (simp add: view3d_def Let_def view_def setStyle_def addSurface_def py_print_def
      show_viewer_def built_viewer_def caption_def)

lemma view3d_error:
  "iloc df (i - 1) = Inl e \<Longrightarrow> view3d df b s siz i out = Inl e"
  by (simp add: view3d_def)

lemma iloc_valid:
  "1 \<le> i \<Longrightarrow> i \<le> int (length df) \<Longrightarrow> iloc df (i - 1) = Inr (df ! nat (i - 1))"
  by (simp add: iloc_def Let_def)

lemma iloc_accepted:
  assumes "- int (length df) \<le> k" and "k < int (length df)"
  shows "\<exists>r. iloc df k = Inr r"
  using assms by (simp add: iloc_def Let_def)

lemma iloc_empty: "iloc [] k = Inl IndexError"
  by (simp add: iloc_def Let_def)

lemma iloc_minus_one: "df \<noteq> [] \<Longrightarrow> iloc df (- 1) = Inr (last df)"
proof -
  assume ne: "df \<noteq> []"
  then have "nat (int (length df) - 1) = length df - 1"
    by (cases df) simp_all
  with ne show ?thesis
    by (simp add: iloc_def Let_def last_conv_nth)
qed

lemma iloc_last: "df \<noteq> [] \<Longrightarrow> iloc df (int (length df) - 1) = Inr (last df)"
proof -
  assume ne: "df \<noteq> []"
  then have "nat (int (length df) - 1) = length df - 1"
    by (cases df) simp_all
  with ne show ?thesis
    by (simp add: iloc_def Let_def last_conv_nth)
qed

lemma count_list_append: "count_list (xs @ ys) c = count_list xs c + count_list ys c"
  by (induction xs) simp_all

lemma count_list_zero_iff: "count_list xs c = 0 \<longleftrightarrow> c \<notin> set xs"
  by (induction xs) auto

lemma header_no_LF: "count_list (header @ '' '') LF = 0"
  by (simp add: header_def LF_def)

section \<open>Properties of the callback and of the slider\<close>

text \<open>
  C1. For a fetched list \<open>df\<close> of \<open>N\<close> rows and an index \<open>i\<close> from 1 to \<open>N\<close>, the callback
  selects the identifier at position \<open>i - 1\<close> of the list, in fetch order: that
  identifier is the one in the query of the viewer it emits and the one in the caption
  it prints.
\<close>

theorem view3d_selects_ith:
  assumes "1 \<le> i" and "i \<le> int (length df)"
  shows "\<exists>v. view3d df b s siz i out =
             Inr (out @ [Stream (header @ '' '' @ idList (df ! nat (i - 1)) @ [LF]),
                         Display v]) \<and>
             query v = ''pdb:'' @ idList (df ! nat (i - 1))"
  using view3d_row [OF iloc_valid [OF assms]]
  by (simp add: caption_def built_viewer_def)

theorem view3d_selects_ith_witness:
  "(1::int) \<le> 2 \<and> 2 \<le> int (length pdb_ids_head) \<and>
   (\<exists>v. view3d pdb_ids_head True False 750 2 [] =
          Inr ([Stream (header @ '' '' @ ''101D'' @ [LF]), Display v]) \<and>
        query v = ''pdb:101D'')"
  using view3d_selects_ith [of 2 pdb_ids_head True False 750 "[]"]
  by (simp add: pdb_ids_head_def)

text \<open>
  C2 (as amended). For every list, assembly flag and size, and every index that the row
  lookup accepts, that is every \<open>i\<close> from \<open>1 - N\<close> to \<open>N\<close> and so in particular every valid
  index from 1 to \<open>N\<close>: with the surface flag set the callback issues the directives it
  issues with the flag clear, followed by exactly one more, the surface directive; the
  two style directives, and everything else emitted, are the same in both invocations.
\<close>

theorem view3d_surface_adds_one:
  assumes "- int (length df) < i" and "i \<le> int (length df)"
  shows "\<exists>c v. view3d df b False siz i out = Inr (out @ [Stream c, Display v]) \<and>
               view3d df b True siz i out =
                 Inr (out @ [Stream c,
                             Display (v\<lparr>commands := commands v @
                                        [Directive ''addSurface'' surface_args]\<rparr>)]) \<and>
               commands v = [Directive ''setStyle'' polymer_style,
                             Directive ''setStyle'' non_polymer_style]"
proof -
  from assms obtain r where r: "iloc df (i - 1) = Inr r"
    using iloc_accepted [of df "i - 1"] by auto
  from view3d_row [OF r, of b False siz out] view3d_row [OF r, of b True siz out]
  show ?thesis
    by (simp add: built_viewer_def)
qed

theorem view3d_surface_adds_one_witness:
  "- int (length pdb_ids_head) < 1 \<and> 1 \<le> int (length pdb_ids_head) \<and>
   (\<exists>c v. view3d pdb_ids_head False False 750 1 [] = Inr ([Stream c, Display v]) \<and>
          view3d pdb_ids_head False True 750 1 [] =
            Inr ([Stream c,
                  Display (v\<lparr>commands := commands v @
                             [Directive ''addSurface'' surface_args]\<rparr>)]) \<and>
          commands v = [Directive ''setStyle'' polymer_style,
                        Directive ''setStyle'' non_polymer_style])"
  using view3d_surface_adds_one [of pdb_ids_head 1 False 750 "[]"]
  by (simp add: pdb_ids_head_def)

text \<open>
  Without the restriction on the index the property fails: on the five rows, index 6
  makes the row lookup raise with the surface flag clear and with it set, so neither
  invocation issues a directive and setting the flag adds none.
\<close>

theorem view3d_surface_out_of_range:
  "view3d pdb_ids_head False False 750 6 [] = Inl IndexError \<and>
   view3d pdb_ids_head False True 750 6 [] = Inl IndexError"
  by (simp add: view3d_def iloc_def pdb_ids_head_def)


text \<open>
  C4. For a list of \<open>N\<close> rows, \<^verbatim>\<open>view_structure\<close> constructs the slider with minimum 1
  and maximum \<open>N\<close> and hands it to \<^verbatim>\<open>interact\<close> together with the callback over this
  list (for the empty list the construction of the slider raises and there is no
  control). The indices selectable with the control are exactly the \<open>i\<close> with
  \<open>1 \<le> i \<le> N\<close>; neither 0 nor \<open>N + 1\<close> is among them.
\<close>

theorem slider_bounds:
  "view_structure df =
     (if df = [] then Inl TraitError
      else Inr \<lparr>callback = view3d df,
                init_show_bio_assembly = False, init_show_surface = False,
                init_size = 750,
                i_widget = \<lparr>smin = 1, smax = int (length df),
                            description = ''structure'', continuous_update = False\<rparr>\<rparr>) \<and>
   selectable (view_structure df) = {i. 1 \<le> i \<and> i \<le> int (length df)} \<and>
   0 \<notin> selectable (view_structure df) \<and>
   int (length df) + 1 \<notin> selectable (view_structure df)"
  by (auto simp add: view_structure_def new_IntSlider_def selectable_def slider_values_def)

theorem slider_bounds_witness:
  "view_structure pdb_ids_head =
     Inr \<lparr>callback = view3d pdb_ids_head,
          init_show_bio_assembly = False, init_show_surface = False,
          init_size = 750,
          i_widget = \<lparr>smin = 1, smax = 5,
                      description = ''structure'', continuous_update = False\<rparr>\<rparr> \<and>
   selectable (view_structure pdb_ids_head) = {i. 1 \<le> i \<and> i \<le> 5} \<and>
   0 \<notin> selectable (view_structure pdb_ids_head) \<and>
   6 \<notin> selectable (view_structure pdb_ids_head)"
proof -
  have ne: "pdb_ids_head \<noteq> []"
    by (simp add: pdb_ids_head_def)
  have len: "int (length pdb_ids_head) = 5"
    by (simp add: pdb_ids_head_def)
  have six: "(5::int) + 1 = 6"
    by simp
  note bounds = slider_bounds [of pdb_ids_head, unfolded len six if_not_P [OF ne]]
  then show ?thesis
    by blast
qed

text \<open>
  C5 (as amended). For every list, both flags, every size and every index that the row
  lookup accepts, that is every \<open>i\<close> from \<open>1 - N\<close> to \<open>N\<close> and so in particular every valid
  index from 1 to \<open>N\<close>, the style directives among the directives of the emitted viewer
  are exactly two constants: first the polymer style, a cartoon coloured by spectrum,
  then the style of the hetero-flagged residues, sticks. Neither depends on the list,
  the flags, the size or the index.
\<close>

theorem view3d_two_fixed_styles:
  assumes "- int (length df) < i" and "i \<le> int (length df)"
  shows "\<exists>c v. view3d df b s siz i out = Inr (out @ [Stream c, Display v]) \<and>
               filter is_setStyle (commands v) =
                 [Directive ''setStyle''
                    [JObj [(''cartoon'',
                            JObj [(''color'', JStr ''spectrum''), (''width'', JDec 6 1)])]],
                  Directive ''setStyle''
                    [JObj [(''hetflag'', JBool True)],
                     JObj [(''stick'',
                            JObj [(''radius'', JDec 3 1),
                                  (''singleBond'', JBool False)])]]]"
proof -
  from assms obtain r where r: "iloc df (i - 1) = Inr r"
    using iloc_accepted [of df "i - 1"] by auto
  from view3d_row [OF r, of b s siz out] show ?thesis
    by (simp add: built_viewer_def polymer_style_def non_polymer_style_def)
qed

theorem view3d_two_fixed_styles_witness:
  "- int (length pdb_ids_head) < 5 \<and> 5 \<le> int (length pdb_ids_head) \<and>
   (\<exists>c v. view3d pdb_ids_head True True 400 5 [] = Inr ([Stream c, Display v]) \<and>
          filter is_setStyle (commands v) =
            [Directive ''setStyle''
               [JObj [(''cartoon'',
                       JObj [(''color'', JStr ''spectrum''), (''width'', JDec 6 1)])]],
             Directive ''setStyle''
               [JObj [(''hetflag'', JBool True)],
                JObj [(''stick'',
                       JObj [(''radius'', JDec 3 1),
                             (''singleBond'', JBool False)])]]])"
  using view3d_two_fixed_styles [of pdb_ids_head 5 True True 400 "[]"]
  by (simp add: pdb_ids_head_def)

text \<open>
  Without the restriction on the index the property fails: on the empty list the row
  lookup raises already for index 1, before a viewer exists, and no style directive is
  issued.
\<close>

theorem view3d_styles_empty_list:
  "view3d [] True True 750 1 [] = Inl IndexError"
  by (simp add: view3d_def iloc_def)

text \<open>
  C6. For a valid index \<open>i\<close> and assembly flag \<open>b\<close>, the viewer is constructed with the
  query \<^verbatim>\<open>'pdb:'\<close> followed by the selected identifier and with the single option
  \<^verbatim>\<open>doAssembly\<close> set to \<open>b\<close>. The surface flag, the size and the earlier output have no
  influence: an invocation that differs only in these fetches with the same query and
  the same options.
\<close>

theorem view3d_fetch_key:
  assumes "1 \<le> i" and "i \<le> int (length df)"
  shows "\<exists>c v c' v'.
           view3d df b s siz i out = Inr (out @ [Stream c, Display v]) \<and>
           view3d df b s' siz' i out' = Inr (out' @ [Stream c', Display v']) \<and>
           query v = ''pdb:'' @ idList (df ! nat (i - 1)) \<and>
           options v = [(''doAssembly'', JBool b)] \<and>
           query v' = query v \<and> options v' = options v"
  using view3d_row [OF iloc_valid [OF assms], of b s siz out]
        view3d_row [OF iloc_valid [OF assms], of b s' siz' out']
  by (simp add: built_viewer_def)

theorem view3d_fetch_key_witness:
  "(1::int) \<le> 4 \<and> 4 \<le> int (length pdb_ids_head) \<and>
   (\<exists>c v c' v'.
      view3d pdb_ids_head True False 750 4 [] = Inr ([Stream c, Display v]) \<and>
      view3d pdb_ids_head True True 300 4 [Stream ''x''] =
        Inr ([Stream ''x''] @ [Stream c', Display v']) \<and>
      query v = ''pdb:102D'' \<and>
      options v = [(''doAssembly'', JBool True)] \<and>
      query v' = query v \<and> options v' = options v)"
  using view3d_fetch_key [of 4 pdb_ids_head True False 750 "[]" True 300 "[Stream ''x'']"]
  by (simp add: pdb_ids_head_def)

text \<open>
  C7. On a fetched list whose identifiers are 100D, 101D, 101M, 102D, 102L, in this
  order, the callback with index 3 prints the caption that ends in the identifier 101M,
  and the viewer it emits fetches 101M, whatever the flags, the size and the record
  counts of the rows are.
\<close>

theorem view3d_index_3:
  assumes "map idList df = [''100D'', ''101D'', ''101M'', ''102D'', ''102L'']"
  shows "\<exists>v. view3d df b s siz 3 out =
             Inr (out @ [Stream (''Click and drag mouse to rotate structure: PDB ID 101M''
                                  @ [LF]),
                         Display v]) \<and>
             query v = ''pdb:101M''"
proof -
  have "length (map idList df) = 5"
    by (simp only: assms) simp
  then have len: "length df = 5"
    by simp
  then have "idList (df ! 2) = map idList df ! 2"
    by simp
  then have id: "idList (df ! 2) = ''101M''"
    by (simp only: assms) simp
  have "iloc df (3 - 1) = Inr (df ! 2)"
    using len by (simp add: iloc_def)
  from view3d_row [OF this, of b s siz out] show ?thesis
    by (simp add: id caption_def header_def built_viewer_def)
qed

theorem view3d_index_3_witness:
  "map idList pdb_ids_head = [''100D'', ''101D'', ''101M'', ''102D'', ''102L''] \<and>
   (\<exists>v. view3d pdb_ids_head False False 750 3 [] =
          Inr ([Stream (''Click and drag mouse to rotate structure: PDB ID 101M'' @ [LF]),
                Display v]) \<and>
        query v = ''pdb:101M'')"
  using view3d_index_3 [of pdb_ids_head False False 750 "[]"]
  by (simp add: pdb_ids_head_def)

text \<open>
  C8. For every valid index the callback emits exactly one text output, written by its
  one call of \<^verbatim>\<open>print\<close>: the header, a blank, the selected identifier and the line end.
  This caption contains the selected identifier and ends with the line end; it is one
  line, that is, it holds exactly one line feed, precisely when the identifier itself
  holds none, as is the case for every PDB accession code.
\<close>

theorem view3d_caption_one_line:
  assumes "1 \<le> i" and "i \<le> int (length df)"
  shows "\<exists>c v. view3d df b s siz i out = Inr (out @ [Stream c, Display v]) \<and>
               c = header @ '' '' @ idList (df ! nat (i - 1)) @ [LF] \<and>
               sublist (idList (df ! nat (i - 1))) c \<and>
               last c = LF \<and>
               (count_list c LF = 1) = (LF \<notin> set (idList (df ! nat (i - 1))))"
proof -
  let ?id = "idList (df ! nat (i - 1))"
  let ?c = "header @ '' '' @ ?id @ [LF]"
  have run: "view3d df b s siz i out =
               Inr (out @ [Stream ?c, Display (built_viewer (df ! nat (i - 1)) b s siz)])"
    using view3d_row [OF iloc_valid [OF assms], of b s siz out]
    by (simp add: caption_def)
  have sub: "sublist ?id ?c"
    using sublist_appendI [of ?id "header @ '' ''" "[LF]"] by simp
  have "count_list ?c LF = count_list (header @ '' '') LF + count_list ?id LF + 1"
    by (simp add: count_list_append)
  then have "count_list ?c LF = count_list ?id LF + 1"
    by (simp only: header_no_LF)
  then have cnt: "(count_list ?c LF = 1) = (LF \<notin> set ?id)"
    by (simp add: count_list_zero_iff)
  have lst: "last ?c = LF"
    by simp
  from run sub lst cnt show ?thesis
    by blast
qed

theorem view3d_caption_one_line_witness:
  "(1::int) \<le> 3 \<and> 3 \<le> int (length pdb_ids_head) \<and>
   (\<exists>c v. view3d pdb_ids_head False False 750 3 [] = Inr ([Stream c, Display v]) \<and>
          c = header @ '' '' @ ''101M'' @ [LF] \<and>
          sublist ''101M'' c \<and> last c = LF \<and> count_list c LF = 1)"
  using view3d_caption_one_line [of 3 pdb_ids_head False False 750 "[]"]
  by (simp add: pdb_ids_head_def LF_def)

text \<open>
  C9 (as amended). For the empty list, \<^verbatim>\<open>view_structure\<close> asks for a slider with
  minimum 1 and maximum 0; the construction raises \<^verbatim>\<open>TraitError\<close>, so no slider is
  built and no control is set up. The callback itself raises \<^verbatim>\<open>IndexError\<close> at its row
  lookup for every index and every other parameter: no invocation succeeds on the empty
  list.
\<close>

theorem empty_list_never_succeeds:
  "new_IntSlider 1 (int (length ([] :: dataframe))) ''structure'' False = Inl TraitError \<and>
   view_structure [] = Inl TraitError \<and>
   view3d [] b s siz i out = Inl IndexError"
  by (simp add: view_structure_def new_IntSlider_def view3d_error [OF iloc_empty])

text \<open>
  No slider with minimum 1 and maximum 0 comes out of the setup for the empty list: the
  setup does not return the controls that such a slider would belong to.
\<close>

theorem empty_list_no_slider:
  "view_structure [] = Inl TraitError \<and>
   view_structure [] \<noteq>
     Inr \<lparr>callback = view3d [],
          init_show_bio_assembly = False, init_show_surface = False,
          init_size = 750,
          i_widget = \<lparr>smin = 1, smax = 0,
                      description = ''structure'', continuous_update = False\<rparr>\<rparr>"
  by (simp add: view_structure_def new_IntSlider_def)

text \<open>
  C10. On a non-empty list of \<open>N\<close> rows the callback called with index 0 does not raise:
  the position \<open>-1\<close> of its row lookup counts from the end, so it selects the last
  identifier and does exactly what it does for index \<open>N\<close>.
\<close>

theorem view3d_index_zero_is_last:
  assumes "df \<noteq> []"
  shows "view3d df b s siz 0 out = view3d df b s siz (int (length df)) out \<and>
         (\<exists>v. view3d df b s siz 0 out =
                Inr (out @ [Stream (header @ '' '' @ idList (last df) @ [LF]), Display v]) \<and>
              query v = ''pdb:'' @ idList (last df))"
proof -
  have zero: "iloc df (0 - 1) = Inr (last df)"
    using iloc_minus_one [OF assms] by simp
  have "view3d df b s siz 0 out = Inr (out @ [Stream (caption (idList (last df))),
          Display (built_viewer (last df) b s siz)])"
    by (rule view3d_row [OF zero])
  moreover have "view3d df b s siz (int (length df)) out =
      Inr (out @ [Stream (caption (idList (last df))),
          Display (built_viewer (last df) b s siz)])"
    by (rule view3d_row [OF iloc_last [OF assms]])
  ultimately show ?thesis
    by (simp add: caption_def built_viewer_def)
qed

theorem view3d_index_zero_is_last_witness:
  "pdb_ids_head \<noteq> [] \<and>
   view3d pdb_ids_head False False 750 0 [] = view3d pdb_ids_head False False 750 5 [] \<and>
   (\<exists>v. view3d pdb_ids_head False False 750 0 [] =
          Inr ([Stream (header @ '' '' @ ''102L'' @ [LF]), Display v]) \<and>
        query v = ''pdb:102L'')"
proof -
  have ne: "pdb_ids_head \<noteq> []"
    by (simp add: pdb_ids_head_def)
  have len: "int (length pdb_ids_head) = 5"
    by (simp add: pdb_ids_head_def)
  have lst: "idList (last pdb_ids_head) = ''102L''"
    by (simp add: pdb_ids_head_def)
  have q: "''pdb:'' @ ''102L'' = ''pdb:102L''"
    by simp
  note run = view3d_index_zero_is_last [OF ne, of False False 750 "[]",
      unfolded len lst append_Nil q]
  from run ne show ?thesis
    by blast
qed

end
